theory Spec2Isabelle
  imports Main "HOL-Library.AList"
begin

section \<open>Data model\<close>

text \<open>
  The services of \<^verbatim>\<open>src/modules/users/users.service.ts\<close> and
  \<^verbatim>\<open>src/modules/posts/posts.service.ts\<close> are embedded as functions on an explicit
  world: the two collections, the message bus, the console, and the answers of the
  collaborators the services call (the database driver, the bus client, bcrypt).
  Every \<^verbatim>\<open>throw\<close> is a value \<open>Inl e\<close>; every \<^verbatim>\<open>try/catch\<close> is a case
  distinction on it.
\<close>

type_synonym ident = string

datatype jvalue = JString string | JNumber int | JBool bool | JNull

text \<open>A plain object of schema-defined fields, in insertion order (a DTO, a patch).\<close>

type_synonym fields = "(string \<times> jvalue) list"

text \<open>
  The exception classes the services throw, with their message; \<open>Error\<close> is any
  error raised by a collaborator (driver, bus). \<open>UnexpectedErrorException\<close> takes the
  optional cause that \<^verbatim>\<open>deletePost\<close> passes.
\<close>

datatype exn =
    ResourceNotFoundException string
  | InvalidInputException string
  | UnexpectedErrorException string "exn option"
  | Error string

fun message :: "exn \<Rightarrow> string" where
  "message (ResourceNotFoundException m) = m"
| "message (InvalidInputException m) = m"
| "message (UnexpectedErrorException m c) = m"
| "message (Error m) = m"

fun instanceof_ResourceNotFoundException :: "exn \<Rightarrow> bool" where
  "instanceof_ResourceNotFoundException (ResourceNotFoundException m) = True"
| "instanceof_ResourceNotFoundException e = False"

fun instanceof_InvalidInputException :: "exn \<Rightarrow> bool" where
  "instanceof_InvalidInputException (InvalidInputException m) = True"
| "instanceof_InvalidInputException e = False"

text \<open>Everything thrown in this model is an instance of the JavaScript \<^verbatim>\<open>Error\<close>.\<close>

definition instanceof_Error :: "exn \<Rightarrow> bool" where
  "instanceof_Error e = True"

subsection \<open>Posts\<close>

record post =
  post_id :: ident
  post_doc :: fields

subsection \<open>Users\<close>

text \<open>
  The source names one member of the \<^verbatim>\<open>UserRole\<close> enum, \<^verbatim>\<open>UserRole.USER\<close>; the
  declaration of the enum (\<^verbatim>\<open>create-user.dto.ts\<close>) is not among the sources. Any
  other role is \<open>OtherRole\<close> with the runtime value it carries (for an enum member a
  string or a number), so that nothing is assumed about the members.
\<close>

datatype UserRole = USER | OtherRole jvalue

text \<open>JavaScript truthiness of a value: the empty string, \<^verbatim>\<open>0\<close> and \<^verbatim>\<open>null\<close> are falsy.\<close>

fun js_truthy :: "jvalue \<Rightarrow> bool" where
  "js_truthy (JString s) = (s \<noteq> [])"
| "js_truthy (JNumber n) = (n \<noteq> 0)"
| "js_truthy (JBool b) = b"
| "js_truthy JNull = False"

text \<open>
  \<^verbatim>\<open>role || UserRole.USER\<close>, for an optional role: \<^verbatim>\<open>undefined\<close> and every falsy
  role give \<^verbatim>\<open>UserRole.USER\<close>, a truthy role is kept. For the role
  \<^verbatim>\<open>UserRole.USER\<close> itself both operands are \<^verbatim>\<open>UserRole.USER\<close>.
\<close>

fun role_or_USER :: "UserRole option \<Rightarrow> UserRole" where
  "role_or_USER None = USER"
| "role_or_USER (Some USER) = USER"
| "role_or_USER (Some (OtherRole v)) = (if js_truthy v then OtherRole v else USER)"

record user =
  user_id :: ident
  email :: string
  password :: string
  role :: UserRole
  isActive :: bool
  isEmailVerified :: bool
  extra :: fields

text \<open>\<^verbatim>\<open>CreateUserDto\<close>: email and password are required, the other three optional.\<close>

record createUserDto =
  dto_email :: string
  dto_password :: string
  dto_role :: "UserRole option"
  dto_isActive :: "bool option"
  dto_isEmailVerified :: "bool option"
  dto_extra :: fields

text \<open>\<^verbatim>\<open>Partial<User>\<close>: every field optional.\<close>

record partialUser =
  upd_email :: "string option"
  upd_password :: "string option"
  upd_role :: "UserRole option"
  upd_isActive :: "bool option"
  upd_isEmailVerified :: "bool option"
  upd_extra :: fields

subsection \<open>The world\<close>

datatype payload = PPost "post option" | PIdent ident

type_synonym event = "string \<times> payload"

text \<open>The calls a service makes on its collaborators, with their arguments.\<close>

datatype call =
    PostsFind
  | PostsFindOne ident
  | PostsCreate fields
  | PostsFindOneAndUpdate ident fields
  | PostsDeleteOne ident
  | UsersFind
  | UsersFindOne string
  | UsersFindById ident
  | UsersSave user
  | UsersFindByIdAndUpdate ident partialUser
  | UsersFindByIdAndDelete ident
  | Emit string payload

datatype log_entry = ConsoleError string exn | LoggerError string exn | LoggerLog string

text \<open>
  \<open>fault w c\<close> is the message of the error with which the collaborator answers the
  call \<open>c\<close> in this world, if it fails (a storage or transport failure, a cast or
  validation error, a bus that is down). \<open>trace\<close> lists the calls made, in order,
  failed ones included; \<open>sent\<close> lists the events the bus accepted.
  \<open>ids\<close> is the sequence of identifiers the driver assigns, \<open>issued\<close> how many
  are used up. \<open>bcrypt_hash\<close> and \<open>bcrypt_compare\<close> are the two functions of the
  bcryptjs library the users service calls, on strings, where they return; the salt
  that \<open>bcrypt_hash\<close> draws is the world's choice.
\<close>

record world =
  users :: "user list"
  posts :: "post list"
  ids :: "nat \<Rightarrow> ident"
  issued :: nat
  fault :: "call \<Rightarrow> string option"
  bcrypt_hash :: "string \<Rightarrow> nat \<Rightarrow> string"
  bcrypt_compare :: "string \<Rightarrow> string \<Rightarrow> bool"
  trace :: "call list"
  sent :: "event list"
  logs :: "log_entry list"

section \<open>Asynchronous code as state passing with exceptions\<close>

type_synonym 'a io = "world \<Rightarrow> (exn + 'a) \<times> world"

definition io_return :: "'a \<Rightarrow> 'a io" where
  "io_return x w = (Inr x, w)"

definition io_throw :: "exn \<Rightarrow> 'a io" where
  "io_throw e w = (Inl e, w)"

definition io_bind :: "'a io \<Rightarrow> ('a \<Rightarrow> 'b io) \<Rightarrow> 'b io" where
  "io_bind m f w = (case m w of (Inl e, w1) \<Rightarrow> (Inl e, w1) | (Inr x, w1) \<Rightarrow> f x w1)"

definition try_catch :: "'a io \<Rightarrow> (exn \<Rightarrow> 'a io) \<Rightarrow> 'a io" where
  "try_catch m h w = (case m w of (Inl e, w1) \<Rightarrow> h e w1 | (Inr x, w1) \<Rightarrow> (Inr x, w1))"

text \<open>
  A call on a collaborator: it is recorded, then either fails with the world's error
  or acts on the world and returns.
\<close>

definition external :: "call \<Rightarrow> (world \<Rightarrow> 'a \<times> world) \<Rightarrow> 'a io" where
  "external c act w =
     (let w1 = w\<lparr>trace := trace w @ [c]\<rparr>
      in case fault w c of
           Some m \<Rightarrow> (Inl (Error m), w1)
         | None \<Rightarrow> (case act w1 of (x, w2) \<Rightarrow> (Inr x, w2)))"

definition console_error :: "string \<Rightarrow> exn \<Rightarrow> unit io" where
  "console_error m e w = (Inr (), w\<lparr>logs := logs w @ [ConsoleError m e]\<rparr>)"

definition logger_error :: "string \<Rightarrow> exn \<Rightarrow> unit io" where
  "logger_error m e w = (Inr (), w\<lparr>logs := logs w @ [LoggerError m e]\<rparr>)"

definition logger_log :: "string \<Rightarrow> unit io" where
  "logger_log m w = (Inr (), w\<lparr>logs := logs w @ [LoggerLog m]\<rparr>)"

text \<open>Single-document writes touch the first matching document only.\<close>

fun replace_first :: "('a \<Rightarrow> bool) \<Rightarrow> 'a \<Rightarrow> 'a list \<Rightarrow> 'a list" where
  "replace_first P y [] = []"
| "replace_first P y (x # xs) = (if P x then y # xs else x # replace_first P y xs)"

fun remove_first :: "('a \<Rightarrow> bool) \<Rightarrow> 'a list \<Rightarrow> 'a list" where
  "remove_first P [] = []"
| "remove_first P (x # xs) = (if P x then xs else x # remove_first P xs)"

text \<open>\<^verbatim>\<open>$set\<close> of a plain object: each key of the patch overwrites or adds a field.\<close>

definition set_fields :: "fields \<Rightarrow> fields \<Rightarrow> fields" where
  "set_fields patch doc = fold (\<lambda>(k, v). AList.update k v) patch doc"

section \<open>The message bus client\<close>

text \<open>
  \<^verbatim>\<open>lastValueFrom(this.blogsClient.emit(name, payload))\<close>: the event is handed to the
  bus, which accepts it or fails.
\<close>

definition emit :: "string \<Rightarrow> payload \<Rightarrow> unit io" where
  "emit name pl = external (Emit name pl) (\<lambda>w. ((), w\<lparr>sent := sent w @ [(name, pl)]\<rparr>))"

section \<open>The posts repository\<close>

text \<open>
  \<^verbatim>\<open>PostsRepository\<close> (\<^verbatim>\<open>posts.repository.ts\<close> and the abstract repository it
  extends) is not among the sources; its five operations follow the store adapter
  contract of section 4.1 of the specification. Each is a call on a collaborator, so a
  storage or transport failure is a fault of the world.
\<close>

text \<open>
  Modelled from the spec: \<^verbatim>\<open>PostsRepository.find\<close> (source missing),
  ``\<open>find(filter)\<close> returns a sequence of entities; empty, never a failure, on no
  matches''. The service only calls it with the empty filter.
\<close>

definition repo_find :: "post list io" where
  "repo_find = external PostsFind (\<lambda>w. (posts w, w))"

text \<open>
  Modelled from the spec: \<^verbatim>\<open>PostsRepository.findOne\<close> (source missing),
  ``\<open>findOne(filter)\<close> returns the entity or signals not-found, not as an
  exception, distinctly from storage failures''. The services test the answer with
  \<^verbatim>\<open>!post\<close>: the signal is \<^verbatim>\<open>null\<close>, here \<open>None\<close>.
\<close>

definition repo_findOne :: "ident \<Rightarrow> post option io" where
  "repo_findOne i = external (PostsFindOne i) (\<lambda>w. (find (\<lambda>p. post_id p = i) (posts w), w))"

text \<open>
  Modelled from the spec: \<^verbatim>\<open>PostsRepository.create\<close> (source missing),
  ``\<open>create(fields)\<close> returns the entity'', whose identifier the store assigns.
\<close>

definition repo_create :: "fields \<Rightarrow> post io" where
  "repo_create dto = external (PostsCreate dto) (\<lambda>w.
     let p = \<lparr>post_id = ids w (issued w), post_doc = dto\<rparr>
     in (p, w\<lparr>posts := posts w @ [p], issued := issued w + 1\<rparr>))"

text \<open>
  Modelled from the spec: \<^verbatim>\<open>PostsRepository.findOneAndUpdate\<close> (source missing),
  ``\<open>updateOne(filter, patch)\<close>: atomic partial update, returns the entity, or
  not-found if the filter matches nothing''.
\<close>

definition repo_findOneAndUpdate :: "ident \<Rightarrow> fields \<Rightarrow> post option io" where
  "repo_findOneAndUpdate i patch = external (PostsFindOneAndUpdate i patch) (\<lambda>w.
     case find (\<lambda>p. post_id p = i) (posts w) of
       None \<Rightarrow> (None, w)
     | Some p \<Rightarrow>
         (let p' = p\<lparr>post_doc := set_fields patch (post_doc p)\<rparr>
          in (Some p', w\<lparr>posts := replace_first (\<lambda>p. post_id p = i) p' (posts w)\<rparr>)))"

text \<open>
  Modelled from the spec: \<^verbatim>\<open>PostsRepository.deleteOne\<close> (source missing),
  ``\<open>deleteOne(filter)\<close> returns whether a document was removed''.
\<close>

definition repo_deleteOne :: "ident \<Rightarrow> bool io" where
  "repo_deleteOne i = external (PostsDeleteOne i) (\<lambda>w.
     (find (\<lambda>p. post_id p = i) (posts w) \<noteq> None,
      w\<lparr>posts := remove_first (\<lambda>p. post_id p = i) (posts w)\<rparr>))"

section \<open>PostsService\<close>

definition posts_findAll :: "post list io" where
  "posts_findAll = repo_find"

definition createPost :: "fields \<Rightarrow> post io" where
  "createPost createPostDto =
     try_catch
       (io_bind (repo_create createPostDto) (\<lambda>post.
        io_bind (emit ''post_created'' (PPost (Some post))) (\<lambda>_.
        io_return post)))
       (\<lambda>error.
        io_bind (console_error ''Error creating post:'' error) (\<lambda>_.
        io_throw (UnexpectedErrorException ''Error creating post'' None)))"

definition findPostById :: "ident \<Rightarrow> post option io" where
  "findPostById i =
     try_catch
       (io_bind (repo_findOne i) (\<lambda>post.
        io_return post))
       (\<lambda>error.
        io_bind (console_error ''Error finding post:'' error) (\<lambda>_.
        io_throw error))"

definition updatePost :: "ident \<Rightarrow> fields \<Rightarrow> post option io" where
  "updatePost i updatePostDto =
     try_catch
       (io_bind (repo_findOne i) (\<lambda>existingPost.
        io_bind (if existingPost = None
                 then io_throw (ResourceNotFoundException ''Post not found'')
                 else io_return ()) (\<lambda>_.
        io_bind (repo_findOneAndUpdate i updatePostDto) (\<lambda>updatedPost.
        io_bind (emit ''post_updated'' (PPost updatedPost)) (\<lambda>_.
        io_return updatedPost)))))
       (\<lambda>error.
        io_bind (console_error ''Error updating post:'' error) (\<lambda>_.
        if instanceof_ResourceNotFoundException error then io_throw error
        else io_throw (UnexpectedErrorException ''Error updating post'' None)))"

definition deletePost :: "ident \<Rightarrow> unit io" where
  "deletePost i =
     try_catch
       (io_bind (repo_findOne i) (\<lambda>post.
        io_bind (if post = None
                 then io_throw (ResourceNotFoundException ''Post'')
                 else io_return ()) (\<lambda>_.
        io_bind (repo_deleteOne i) (\<lambda>_.
        io_bind (emit ''post_deleted'' (PIdent i)) (\<lambda>_.
        io_return ())))))
       (\<lambda>error.
        io_bind (logger_error ''Error deleting post:'' error) (\<lambda>_.
        if instanceof_ResourceNotFoundException error
        then io_throw (ResourceNotFoundException ''Post'')
        else io_throw (UnexpectedErrorException ''Error deleting post''
                         (if instanceof_Error error then Some error else None))))"

text \<open>The inbound event handlers only log.\<close>

definition handlePostCreated :: "post \<Rightarrow> unit io" where
  "handlePostCreated post = logger_log (''Handling post created event for post: '' @ post_id post)"

definition handlePostUpdated :: "post \<Rightarrow> unit io" where
  "handlePostUpdated post = logger_log (''Handling post updated event for post: '' @ post_id post)"

definition handlePostDeleted :: "ident \<Rightarrow> unit io" where
  "handlePostDeleted postId = logger_log (''Handling post deleted event for post: '' @ postId)"

section \<open>The users collection\<close>

text \<open>
  The Mongoose model of the users collection, as far as \<^verbatim>\<open>UsersService\<close> calls it:
  \<open>findOne\<close> and \<open>findById\<close> answer with the first matching document or
  \<^verbatim>\<open>null\<close>; \<open>findByIdAndUpdate\<close> with \<^verbatim>\<open>new: true\<close> answers with the document
  after the update, \<open>findByIdAndDelete\<close> with the document it removed, both with
  \<^verbatim>\<open>null\<close> when nothing matches. Cast and validation errors, like storage
  failures, are faults of the world.
\<close>

definition model_find :: "user list io" where
  "model_find = external UsersFind (\<lambda>w. (users w, w))"

definition model_findOne :: "string \<Rightarrow> user option io" where
  "model_findOne e = external (UsersFindOne e) (\<lambda>w. (find (\<lambda>u. email u = e) (users w), w))"

definition model_findById :: "ident \<Rightarrow> user option io" where
  "model_findById i = external (UsersFindById i) (\<lambda>w. (find (\<lambda>u. user_id u = i) (users w), w))"

text \<open>\<^verbatim>\<open>new this.userModel(obj)\<close>: the document gets its identifier at construction.\<close>

definition model_new :: "(ident \<Rightarrow> user) \<Rightarrow> user io" where
  "model_new mk w = (Inr (mk (ids w (issued w))), w\<lparr>issued := issued w + 1\<rparr>)"

definition model_save :: "user \<Rightarrow> user io" where
  "model_save doc = external (UsersSave doc) (\<lambda>w. (doc, w\<lparr>users := users w @ [doc]\<rparr>))"

text \<open>\<^verbatim>\<open>{ $set: updateUserDto }\<close>: the fields present in the patch overwrite the document's.\<close>

definition set_user :: "partialUser \<Rightarrow> user \<Rightarrow> user" where
  "set_user patch u =
     u\<lparr>email := (case upd_email patch of None \<Rightarrow> email u | Some v \<Rightarrow> v),
       password := (case upd_password patch of None \<Rightarrow> password u | Some v \<Rightarrow> v),
       role := (case upd_role patch of None \<Rightarrow> role u | Some v \<Rightarrow> v),
       isActive := (case upd_isActive patch of None \<Rightarrow> isActive u | Some v \<Rightarrow> v),
       isEmailVerified :=
         (case upd_isEmailVerified patch of None \<Rightarrow> isEmailVerified u | Some v \<Rightarrow> v),
       extra := set_fields (upd_extra patch) (extra u)\<rparr>"

definition model_findByIdAndUpdate :: "ident \<Rightarrow> partialUser \<Rightarrow> user option io" where
  "model_findByIdAndUpdate i patch = external (UsersFindByIdAndUpdate i patch) (\<lambda>w.
     case find (\<lambda>u. user_id u = i) (users w) of
       None \<Rightarrow> (None, w)
     | Some u \<Rightarrow>
         (let u' = set_user patch u
          in (Some u', w\<lparr>users := replace_first (\<lambda>u. user_id u = i) u' (users w)\<rparr>)))"

definition model_findByIdAndDelete :: "ident \<Rightarrow> user option io" where
  "model_findByIdAndDelete i = external (UsersFindByIdAndDelete i) (\<lambda>w.
     (find (\<lambda>u. user_id u = i) (users w),
      w\<lparr>users := remove_first (\<lambda>u. user_id u = i) (users w)\<rparr>))"

definition bcrypt_hash_io :: "string \<Rightarrow> nat \<Rightarrow> string io" where
  "bcrypt_hash_io pw rounds w = (Inr (bcrypt_hash w pw rounds), w)"

definition bcrypt_compare_io :: "string \<Rightarrow> string \<Rightarrow> bool io" where
  "bcrypt_compare_io pw h w = (Inr (bcrypt_compare w pw h), w)"

section \<open>UsersService\<close>

definition SALT_ROUNDS :: nat where
  "SALT_ROUNDS = 10"

definition users_findAll :: "user list io" where
  "users_findAll = model_find"

definition findUserByEmail :: "string \<Rightarrow> user option io" where
  "findUserByEmail e =
     try_catch (model_findOne e)
       (\<lambda>error. io_throw (UnexpectedErrorException ''Error finding user'' None))"

text \<open>
  The object handed to \<^verbatim>\<open>new this.userModel\<close>: the DTO spread, then the hashed
  password and the three defaulted fields: \<^verbatim>\<open>||\<close> (truthiness) for the role,
  \<^verbatim>\<open>??\<close> (only \<^verbatim>\<open>undefined\<close> and \<^verbatim>\<open>null\<close>) for the two flags.
\<close>

definition new_user_fields :: "createUserDto \<Rightarrow> string \<Rightarrow> ident \<Rightarrow> user" where
  "new_user_fields createUserDto hashedPassword i =
     \<lparr>user_id = i,
      email = dto_email createUserDto,
      password = hashedPassword,
      role = role_or_USER (dto_role createUserDto),
      isActive = (case dto_isActive createUserDto of Some b \<Rightarrow> b | None \<Rightarrow> True),
      isEmailVerified =
        (case dto_isEmailVerified createUserDto of Some b \<Rightarrow> b | None \<Rightarrow> False),
      extra = dto_extra createUserDto\<rparr>"

definition createUser :: "createUserDto \<Rightarrow> user io" where
  "createUser createUserDto =
     try_catch
       (io_bind (findUserByEmail (dto_email createUserDto)) (\<lambda>existingUser.
        io_bind (if existingUser \<noteq> None
                 then io_throw (InvalidInputException ''Email already exists'')
                 else io_return ()) (\<lambda>_.
        io_bind (bcrypt_hash_io (dto_password createUserDto) SALT_ROUNDS) (\<lambda>hashedPassword.
        io_bind (model_new (new_user_fields createUserDto hashedPassword)) (\<lambda>newUser.
        io_bind (model_save newUser) (\<lambda>savedUser.
        io_return savedUser))))))
       (\<lambda>error.
        if instanceof_InvalidInputException error then io_throw error
        else io_bind (console_error ''Error creating user:'' error) (\<lambda>_.
             io_throw (UnexpectedErrorException ''Error creating user'' None)))"

definition findUserById :: "ident \<Rightarrow> user io" where
  "findUserById i =
     try_catch
       (io_bind (model_findById i) (\<lambda>user.
        case user of
          None \<Rightarrow> io_throw (ResourceNotFoundException ''User not found'')
        | Some u \<Rightarrow> io_return u))
       (\<lambda>error.
        if instanceof_ResourceNotFoundException error then io_throw error
        else io_throw (UnexpectedErrorException ''Error finding user'' None))"

text \<open>
  In \<^verbatim>\<open>updateUserDto.email && updateUserDto.email !== existingUser.email\<close> the first
  conjunct is JavaScript truthiness: an omitted email and the empty string are both
  falsy.
\<close>

definition updateUser :: "ident \<Rightarrow> partialUser \<Rightarrow> user io" where
  "updateUser i updateUserDto =
     try_catch
       (io_bind (model_findById i) (\<lambda>existingUser.
        case existingUser of
          None \<Rightarrow> io_throw (ResourceNotFoundException ''User not found'')
        | Some existing \<Rightarrow>
        io_bind (case upd_email updateUserDto of
                   None \<Rightarrow> io_return ()
                 | Some e \<Rightarrow>
                     if e \<noteq> [] \<and> e \<noteq> email existing
                     then io_bind (findUserByEmail e) (\<lambda>emailExists.
                          if emailExists \<noteq> None
                          then io_throw (InvalidInputException ''Email already exists'')
                          else io_return ())
                     else io_return ()) (\<lambda>_.
        io_bind (model_findByIdAndUpdate i updateUserDto) (\<lambda>updatedUser.
        case updatedUser of
          None \<Rightarrow> io_throw (ResourceNotFoundException ''User not found after update'')
        | Some u \<Rightarrow> io_return u))))
       (\<lambda>error.
        io_bind (console_error ''Update error details:'' error) (\<lambda>_.
        if instanceof_ResourceNotFoundException error \<or> instanceof_InvalidInputException error
        then io_throw error
        else io_throw (UnexpectedErrorException
                         (''Error updating user: '' @ message error) None)))"

definition deleteUser :: "ident \<Rightarrow> unit io" where
  "deleteUser i =
     try_catch
       (io_bind (model_findByIdAndDelete i) (\<lambda>result.
        if result = None
        then io_throw (ResourceNotFoundException ''User not found'')
        else io_return ()))
       (\<lambda>error.
        if instanceof_ResourceNotFoundException error then io_throw error
        else io_throw (UnexpectedErrorException ''Error deleting user'' None))"

definition validateUserCredentials :: "string \<Rightarrow> string \<Rightarrow> user io" where
  "validateUserCredentials e pw =
     try_catch
       (io_bind (findUserByEmail e) (\<lambda>user.
        case user of
          None \<Rightarrow> io_throw (InvalidInputException ''Invalid credentials'')
        | Some u \<Rightarrow>
        io_bind (bcrypt_compare_io pw (password u)) (\<lambda>isPasswordValid.
        if \<not> isPasswordValid
        then io_throw (InvalidInputException ''Invalid credentials'')
        else io_return u)))
       (\<lambda>error.
        if instanceof_InvalidInputException error then io_throw error
        else io_throw (UnexpectedErrorException ''Error validating credentials'' None))"

section \<open>Observing a command\<close>

text \<open>The calls a command adds to the trace, and the events among a list of calls.\<close>

definition new_calls :: "'a io \<Rightarrow> world \<Rightarrow> call list" where
  "new_calls m w = drop (length (trace w)) (trace (snd (m w)))"

fun emit_calls :: "call list \<Rightarrow> event list" where
  "emit_calls [] = []"
| "emit_calls (Emit n pl # cs) = (n, pl) # emit_calls cs"
| "emit_calls (c # cs) = emit_calls cs"

text \<open>The calls that write to a collection.\<close>

fun is_write :: "call \<Rightarrow> bool" where
  "is_write (PostsCreate d) = True"
| "is_write (PostsFindOneAndUpdate i d) = True"
| "is_write (PostsDeleteOne i) = True"
| "is_write (UsersSave u) = True"
| "is_write (UsersFindByIdAndUpdate i d) = True"
| "is_write (UsersFindByIdAndDelete i) = True"
| "is_write c = False"

section \<open>Concrete worlds\<close>

text \<open>
  A small world to run the services in: two users, one post, and stand-ins for the
  identifier sequence and for bcrypt. The fault table is a parameter.
\<close>

definition demo_ids :: "nat \<Rightarrow> ident" where
  "demo_ids n = ''id'' @ replicate n (CHR ''x'')"

definition demo_hash :: "string \<Rightarrow> nat \<Rightarrow> string" where
  "demo_hash pw rounds = ''$2a$10$'' @ rev pw"

definition demo_compare :: "string \<Rightarrow> string \<Rightarrow> bool" where
  "demo_compare pw h = (h = ''$2a$10$'' @ rev pw)"

definition alice :: user where
  "alice = \<lparr>user_id = ''u1'', email = ''a@x.com'', password = ''$2a$10$p'', role = USER,
            isActive = True, isEmailVerified = False, extra = []\<rparr>"

definition carol :: user where
  "carol = \<lparr>user_id = ''u2'', email = ''c@x.com'', password = ''$2a$10$q'', role = USER,
            isActive = True, isEmailVerified = True, extra = []\<rparr>"

definition first_post :: post where
  "first_post = \<lparr>post_id = ''p1'', post_doc = [(''title'', JString ''hello'')]\<rparr>"

definition demo_world :: "(call \<Rightarrow> string option) \<Rightarrow> world" where
  "demo_world f =
     \<lparr>users = [alice, carol], posts = [first_post], ids = demo_ids, issued = 0, fault = f,
      bcrypt_hash = demo_hash, bcrypt_compare = demo_compare,
      trace = [], sent = [], logs = []\<rparr>"

definition no_fault :: "call \<Rightarrow> string option" where
  "no_fault c = None"

fun bus_down :: "call \<Rightarrow> string option" where
  "bus_down (Emit n pl) = Some ''bus down''"
| "bus_down c = None"

fun writes_fail :: "call \<Rightarrow> string option" where
  "writes_fail (PostsCreate d) = Some ''write failed''"
| "writes_fail (PostsFindOneAndUpdate i d) = Some ''write failed''"
| "writes_fail (PostsDeleteOne i) = Some ''write failed''"
| "writes_fail (UsersSave u) = Some ''write failed''"
| "writes_fail (UsersFindByIdAndUpdate i d) = Some ''write failed''"
| "writes_fail (UsersFindByIdAndDelete i) = Some ''write failed''"
| "writes_fail c = None"

definition new_dto :: createUserDto where
  "new_dto = \<lparr>dto_email = ''b@x.com'', dto_password = ''p'', dto_role = None,
              dto_isActive = None, dto_isEmailVerified = None, dto_extra = []\<rparr>"

definition no_patch :: partialUser where
  "no_patch = \<lparr>upd_email = None, upd_password = None, upd_role = None,
               upd_isActive = None, upd_isEmailVerified = None, upd_extra = []\<rparr>"

definition new_post_dto :: fields where
  "new_post_dto = [(''title'', JString ''x'')]"

definition post_patch :: fields where
  "post_patch = [(''title'', JString ''y'')]"

lemmas io_defs =
  io_return_def io_throw_def io_bind_def try_catch_def external_def
  console_error_def logger_error_def logger_log_def emit_def Let_def

lemmas repo_defs =
  repo_find_def repo_findOne_def repo_create_def repo_findOneAndUpdate_def repo_deleteOne_def

lemmas model_defs =
  model_find_def model_findOne_def model_findById_def model_new_def model_save_def
  model_findByIdAndUpdate_def model_findByIdAndDelete_def bcrypt_hash_io_def
  bcrypt_compare_io_def findUserByEmail_def

lemmas demo_defs =
  demo_world_def demo_ids_def demo_hash_def demo_compare_def alice_def carol_def
  first_post_def no_fault_def new_dto_def no_patch_def new_post_dto_def post_patch_def

lemmas posts_defs = createPost_def updatePost_def deletePost_def findPostById_def
lemmas users_defs =
  createUser_def updateUser_def deleteUser_def findUserById_def validateUserCredentials_def

section \<open>Lists of documents\<close>

lemma find_replace_first:
  "find P xs = Some x \<Longrightarrow> P y \<Longrightarrow> find P (replace_first P y xs) = Some y"
  by (induction xs) (auto split: if_splits)

lemma remove_first_absent: "find P xs = None \<Longrightarrow> remove_first P xs = xs"
  by (induction xs) (auto split: if_splits)

lemma find_post_id: "find (\<lambda>p. post_id p = i) ps = Some p \<Longrightarrow> post_id p = i"
  by (induction ps) (auto split: if_splits)

lemma find_replace_post:
  assumes "find (\<lambda>p. post_id p = i) ps = Some p"
  shows "find (\<lambda>p. post_id p = i) (replace_first (\<lambda>p. post_id p = i) (p\<lparr>post_doc := d\<rparr>) ps)
     = Some (p\<lparr>post_doc := d\<rparr>)"
proof (rule find_replace_first [OF assms])
  show "post_id (p\<lparr>post_doc := d\<rparr>) = i"
    using find_post_id [OF assms] by simp
qed

section \<open>PostsService: write committed, publish failed\<close>

lemma createPost_publish_fails:
  assumes "fault w (PostsCreate dto) = None"
    and "fault w (Emit ''post_created'' (PPost (Some \<lparr>post_id = ids w (issued w), post_doc = dto\<rparr>))) = Some m"
  shows "fst (createPost dto w) = Inl (UnexpectedErrorException ''Error creating post'' None)"
    and "posts (snd (createPost dto w)) = posts w @ [\<lparr>post_id = ids w (issued w), post_doc = dto\<rparr>]"
    and "sent (snd (createPost dto w)) = sent w"
    and "logs (snd (createPost dto w)) = logs w @ [ConsoleError ''Error creating post:'' (Error m)]"
  using assms by (simp_all add: createPost_def io_defs repo_defs Let_def)

lemma updatePost_publish_fails:
  assumes "fault w (PostsFindOne i) = None"
    and "find (\<lambda>p. post_id p = i) (posts w) = Some p"
    and "fault w (PostsFindOneAndUpdate i patch) = None"
    and "fault w (Emit ''post_updated'' (PPost (Some (p\<lparr>post_doc := set_fields patch (post_doc p)\<rparr>)))) = Some m"
  shows "fst (updatePost i patch w) = Inl (UnexpectedErrorException ''Error updating post'' None)"
    and "posts (snd (updatePost i patch w)) = replace_first (\<lambda>p. post_id p = i) (p\<lparr>post_doc := set_fields patch (post_doc p)\<rparr>) (posts w)"
    and "sent (snd (updatePost i patch w)) = sent w"
    and "logs (snd (updatePost i patch w)) = logs w @ [ConsoleError ''Error updating post:'' (Error m)]"
  using assms by (simp_all add: updatePost_def io_defs repo_defs Let_def)

lemma deletePost_publish_fails:
  assumes "fault w (PostsFindOne i) = None"
    and "find (\<lambda>p. post_id p = i) (posts w) = Some p"
    and "fault w (PostsDeleteOne i) = None"
    and "fault w (Emit ''post_deleted'' (PIdent i)) = Some m"
  shows "fst (deletePost i w) = Inl (UnexpectedErrorException ''Error deleting post'' (Some (Error m)))"
    and "posts (snd (deletePost i w)) = remove_first (\<lambda>p. post_id p = i) (posts w)"
    and "sent (snd (deletePost i w)) = sent w"
    and "logs (snd (deletePost i w)) = logs w @ [LoggerError ''Error deleting post:'' (Error m)]"
  using assms by (simp_all add: deletePost_def io_defs repo_defs Let_def instanceof_Error_def)

section \<open>PostsService: successful commands\<close>

text \<open>
  A post command succeeds exactly when every call it makes is answered: the lookup finds
  the post (update, delete), the write goes through, and the bus accepts the event.
\<close>

lemma createPost_Inr_iff:
  "fst (createPost dto w) = Inr p \<longleftrightarrow>
     fault w (PostsCreate dto) = None \<and> p = \<lparr>post_id = ids w (issued w), post_doc = dto\<rparr> \<and>
     fault w (Emit ''post_created'' (PPost (Some \<lparr>post_id = ids w (issued w), post_doc = dto\<rparr>))) = None"
proof (cases "fault w (PostsCreate dto)")
  case None
  show ?thesis
  proof (cases "fault w (Emit ''post_created'' (PPost (Some \<lparr>post_id = ids w (issued w), post_doc = dto\<rparr>)))")
    case None
    with \<open>fault w (PostsCreate dto) = None\<close> show ?thesis
      by (auto simp add: createPost_def io_defs repo_defs Let_def)
  next
    case (Some m)
    with \<open>fault w (PostsCreate dto) = None\<close> show ?thesis
      by (simp add: createPost_def io_defs repo_defs Let_def)
  qed
next
  case (Some m)
  then show ?thesis by (simp add: createPost_def io_defs repo_defs Let_def)
qed

lemma createPost_success:
  assumes "fst (createPost dto w) = Inr p"
  shows "new_calls (createPost dto) w = [PostsCreate dto, Emit ''post_created'' (PPost (Some p))]"
    and "sent (snd (createPost dto w)) = sent w @ [(''post_created'', PPost (Some p))]"
    and "posts (snd (createPost dto w)) = posts w @ [p]"
proof -
  from assms have f: "fault w (PostsCreate dto) = None"
    "p = \<lparr>post_id = ids w (issued w), post_doc = dto\<rparr>"
    "fault w (Emit ''post_created'' (PPost (Some \<lparr>post_id = ids w (issued w), post_doc = dto\<rparr>))) = None"
    unfolding createPost_Inr_iff by simp_all
  show "new_calls (createPost dto) w = [PostsCreate dto, Emit ''post_created'' (PPost (Some p))]"
    using f(1,3) by (simp add: f(2) createPost_def new_calls_def io_defs repo_defs Let_def)
  show "sent (snd (createPost dto w)) = sent w @ [(''post_created'', PPost (Some p))]"
    using f(1,3) by (simp add: f(2) createPost_def io_defs repo_defs Let_def)
  show "posts (snd (createPost dto w)) = posts w @ [p]"
    using f(1,3) by (simp add: f(2) createPost_def io_defs repo_defs Let_def)
qed


lemma updatePost_Inr_iff:
  "fst (updatePost i patch w) = Inr r \<longleftrightarrow>
     fault w (PostsFindOne i) = None \<and>
     (\<exists>p. find (\<lambda>p. post_id p = i) (posts w) = Some p \<and>
          r = Some (p\<lparr>post_doc := set_fields patch (post_doc p)\<rparr>)) \<and>
     fault w (PostsFindOneAndUpdate i patch) = None \<and>
     fault w (Emit ''post_updated'' (PPost r)) = None"
  by (auto simp add: updatePost_def io_defs repo_defs Let_def split: option.split)

lemma updatePost_success:
  assumes "fst (updatePost i patch w) = Inr r"
  shows "new_calls (updatePost i patch) w = [PostsFindOne i, PostsFindOneAndUpdate i patch, Emit ''post_updated'' (PPost r)]"
    and "sent (snd (updatePost i patch w)) = sent w @ [(''post_updated'', PPost r)]"
    and "r \<noteq> None"
    and "find (\<lambda>p. post_id p = i) (posts (snd (updatePost i patch w))) = r"
proof -
  from assms obtain p where f: "fault w (PostsFindOne i) = None"
    "find (\<lambda>p. post_id p = i) (posts w) = Some p"
    "r = Some (p\<lparr>post_doc := set_fields patch (post_doc p)\<rparr>)"
    "fault w (PostsFindOneAndUpdate i patch) = None"
    "fault w (Emit ''post_updated'' (PPost r)) = None"
    unfolding updatePost_Inr_iff by blast
  from f(5) have f5: "fault w (Emit ''post_updated'' (PPost (Some (p\<lparr>post_doc := set_fields patch (post_doc p)\<rparr>)))) = None"
    by (simp add: f(3))
  show "new_calls (updatePost i patch) w = [PostsFindOne i, PostsFindOneAndUpdate i patch, Emit ''post_updated'' (PPost r)]"
    using f(1,2,4) f5 by (simp add: f(3) updatePost_def new_calls_def io_defs repo_defs Let_def)
  show "sent (snd (updatePost i patch w)) = sent w @ [(''post_updated'', PPost r)]"
    using f(1,2,4) f5 by (simp add: f(3) updatePost_def io_defs repo_defs Let_def)
  show "r \<noteq> None" by (simp add: f(3))
  show "find (\<lambda>p. post_id p = i) (posts (snd (updatePost i patch w))) = r"
    using f(1,2,4) f5 find_replace_post [OF f(2)]
    by (simp add: f(3) updatePost_def io_defs repo_defs Let_def)
qed

lemma deletePost_Inr_iff:
  "fst (deletePost i w) = Inr u \<longleftrightarrow>
     fault w (PostsFindOne i) = None \<and>
     find (\<lambda>p. post_id p = i) (posts w) \<noteq> None \<and>
     fault w (PostsDeleteOne i) = None \<and>
     fault w (Emit ''post_deleted'' (PIdent i)) = None"
  by (auto simp add: deletePost_def io_defs repo_defs Let_def split: option.split)

lemma deletePost_success:
  assumes "fst (deletePost i w) = Inr u"
  shows "new_calls (deletePost i) w = [PostsFindOne i, PostsDeleteOne i, Emit ''post_deleted'' (PIdent i)]"
    and "sent (snd (deletePost i w)) = sent w @ [(''post_deleted'', PIdent i)]"
    and "posts (snd (deletePost i w)) = remove_first (\<lambda>p. post_id p = i) (posts w)"
  using assms unfolding deletePost_Inr_iff
  by (auto simp add: deletePost_def new_calls_def io_defs repo_defs Let_def)

section \<open>UsersService makes no call on the bus\<close>

lemma users_never_emit:
  "sent (snd (createUser dto w)) = sent w"
  "sent (snd (updateUser i patch w)) = sent w"
  "sent (snd (deleteUser i w)) = sent w"
  by (simp_all add: users_defs io_defs model_defs Let_def split: option.split)

lemma users_no_emit_calls:
  "emit_calls (new_calls (createUser dto) w) = []"
  "emit_calls (new_calls (updateUser i patch) w) = []"
  "emit_calls (new_calls (deleteUser i) w) = []"
  by (simp_all add: users_defs new_calls_def io_defs model_defs Let_def split: option.split)


section \<open>A failing store write\<close>

lemma createPost_write_fails:
  assumes "fault w (PostsCreate dto) = Some m"
  shows "createPost dto w =
           (Inl (UnexpectedErrorException ''Error creating post'' None),
            w\<lparr>trace := trace w @ [PostsCreate dto],
              logs := logs w @ [ConsoleError ''Error creating post:'' (Error m)]\<rparr>)"
  using assms by (simp add: createPost_def io_defs repo_defs Let_def)

lemma updatePost_write_fails:
  assumes "fault w (PostsFindOneAndUpdate i patch) = Some m"
  shows "\<exists>e. fst (updatePost i patch w) = Inl e"
    and "sent (snd (updatePost i patch w)) = sent w"
    and "emit_calls (new_calls (updatePost i patch) w) = []"
    and "posts (snd (updatePost i patch w)) = posts w"
  using assms
  by (simp_all add: updatePost_def new_calls_def io_defs repo_defs Let_def split: option.split)

lemma deletePost_write_fails:
  assumes "fault w (PostsDeleteOne i) = Some m"
  shows "\<exists>e. fst (deletePost i w) = Inl e"
    and "sent (snd (deletePost i w)) = sent w"
    and "emit_calls (new_calls (deletePost i) w) = []"
    and "posts (snd (deletePost i w)) = posts w"
  using assms
  by (simp_all add: deletePost_def new_calls_def io_defs repo_defs Let_def split: option.split)

lemma createUser_write_fails:
  assumes "fault w (UsersSave (new_user_fields dto (bcrypt_hash w (dto_password dto) SALT_ROUNDS)
                                 (ids w (issued w)))) = Some m"
  shows "\<exists>e. fst (createUser dto w) = Inl e"
    and "users (snd (createUser dto w)) = users w"
  using assms
  by (simp_all add: createUser_def io_defs model_defs Let_def split: option.split)

lemma updateUser_write_fails:
  assumes "fault w (UsersFindByIdAndUpdate i patch) = Some m"
  shows "\<exists>e. fst (updateUser i patch w) = Inl e"
    and "users (snd (updateUser i patch w)) = users w"
  using assms
  by (simp_all add: updateUser_def io_defs model_defs Let_def split: option.split)

lemma deleteUser_write_fails:
  assumes "fault w (UsersFindByIdAndDelete i) = Some m"
  shows "deleteUser i w =
           (Inl (UnexpectedErrorException ''Error deleting user'' None),
            w\<lparr>trace := trace w @ [UsersFindByIdAndDelete i]\<rparr>)"
  using assms
  by (simp add: deleteUser_def io_defs model_defs Let_def)

section \<open>An absent identifier\<close>

lemma updateUser_absent:
  assumes "fault w (UsersFindById i) = None"
    and "find (\<lambda>u. user_id u = i) (users w) = None"
  shows "updateUser i patch w =
           (Inl (ResourceNotFoundException ''User not found''),
            w\<lparr>trace := trace w @ [UsersFindById i],
              logs := logs w @ [ConsoleError ''Update error details:''
                                  (ResourceNotFoundException ''User not found'')]\<rparr>)"
  using assms by (simp add: updateUser_def io_defs model_defs Let_def)

lemma deleteUser_absent:
  assumes "fault w (UsersFindByIdAndDelete i) = None"
    and "find (\<lambda>u. user_id u = i) (users w) = None"
  shows "deleteUser i w =
           (Inl (ResourceNotFoundException ''User not found''),
            w\<lparr>trace := trace w @ [UsersFindByIdAndDelete i]\<rparr>)"
  using assms by (simp add: deleteUser_def io_defs model_defs Let_def remove_first_absent)

lemma updatePost_absent:
  assumes "fault w (PostsFindOne i) = None"
    and "find (\<lambda>p. post_id p = i) (posts w) = None"
  shows "updatePost i patch w =
           (Inl (ResourceNotFoundException ''Post not found''),
            w\<lparr>trace := trace w @ [PostsFindOne i],
              logs := logs w @ [ConsoleError ''Error updating post:''
                                  (ResourceNotFoundException ''Post not found'')]\<rparr>)"
  using assms by (simp add: updatePost_def io_defs repo_defs Let_def)

lemma deletePost_absent:
  assumes "fault w (PostsFindOne i) = None"
    and "find (\<lambda>p. post_id p = i) (posts w) = None"
  shows "deletePost i w =
           (Inl (ResourceNotFoundException ''Post''),
            w\<lparr>trace := trace w @ [PostsFindOne i],
              logs := logs w @ [LoggerError ''Error deleting post:''
                                  (ResourceNotFoundException ''Post'')]\<rparr>)"
  using assms by (simp add: deletePost_def io_defs repo_defs Let_def)

lemma findUserById_absent:
  assumes "fault w (UsersFindById i) = None"
    and "find (\<lambda>u. user_id u = i) (users w) = None"
  shows "findUserById i w =
           (Inl (ResourceNotFoundException ''User not found''),
            w\<lparr>trace := trace w @ [UsersFindById i]\<rparr>)"
  using assms by (simp add: findUserById_def io_defs model_defs Let_def)

lemma findPostById_absent:
  assumes "fault w (PostsFindOne i) = None"
    and "find (\<lambda>p. post_id p = i) (posts w) = None"
  shows "findPostById i w = (Inr None, w\<lparr>trace := trace w @ [PostsFindOne i]\<rparr>)"
  using assms by (simp add: findPostById_def io_defs repo_defs Let_def)


section \<open>An email already held\<close>

lemma find_held: "e \<in> email ` set us \<Longrightarrow> find (\<lambda>u. email u = e) us \<noteq> None"
  by (auto simp add: find_None_iff)

lemma createUser_email_held:
  assumes "fault w (UsersFindOne (dto_email dto)) = None"
    and "dto_email dto \<in> email ` set (users w)"
  shows "createUser dto w =
           (Inl (InvalidInputException ''Email already exists''),
            w\<lparr>trace := trace w @ [UsersFindOne (dto_email dto)]\<rparr>)"
  using assms(1) find_held [OF assms(2)]
  by (auto simp add: createUser_def io_defs model_defs Let_def)

lemma updateUser_email_held:
  assumes "fault w (UsersFindById i) = None"
    and "find (\<lambda>u. user_id u = i) (users w) = Some u"
    and "upd_email patch = Some e"
    and "e \<noteq> []" and "e \<noteq> email u"
    and "fault w (UsersFindOne e) = None"
    and "e \<in> email ` set (users w)"
  shows "updateUser i patch w =
           (Inl (InvalidInputException ''Email already exists''),
            w\<lparr>trace := trace w @ [UsersFindById i, UsersFindOne e],
              logs := logs w @ [ConsoleError ''Update error details:''
                                  (InvalidInputException ''Email already exists'')]\<rparr>)"
  using assms(1-6) find_held [OF assms(7)]
  by (auto simp add: updateUser_def io_defs model_defs Let_def)

section \<open>Credentials\<close>




section \<open>UsersService: successful create and update\<close>

lemma createUser_Inr_iff:
  "fst (createUser dto w) = Inr u \<longleftrightarrow>
     fault w (UsersFindOne (dto_email dto)) = None \<and>
     find (\<lambda>u. email u = dto_email dto) (users w) = None \<and>
     u = new_user_fields dto (bcrypt_hash w (dto_password dto) SALT_ROUNDS) (ids w (issued w)) \<and>
     fault w (UsersSave (new_user_fields dto (bcrypt_hash w (dto_password dto) SALT_ROUNDS)
                           (ids w (issued w)))) = None"
  by (auto simp add: createUser_def io_defs model_defs Let_def split: option.split)

lemma createUser_stored:
  assumes "fst (createUser dto w) = Inr u"
  shows "users (snd (createUser dto w)) = users w @ [u]"
  using assms unfolding createUser_Inr_iff
  by (auto simp add: createUser_def io_defs model_defs Let_def)

lemma updateUser_same_email:
  assumes "fault w (UsersFindById i) = None"
    and "find (\<lambda>u. user_id u = i) (users w) = Some u"
    and "upd_email patch = Some (email u)"
    and "fault w (UsersFindByIdAndUpdate i patch) = None"
  shows "updateUser i patch w =
           (Inr (set_user patch u),
            w\<lparr>trace := trace w @ [UsersFindById i, UsersFindByIdAndUpdate i patch],
              users := replace_first (\<lambda>u. user_id u = i) (set_user patch u) (users w)\<rparr>)"
  using assms by (simp add: updateUser_def io_defs model_defs Let_def)

lemma updateUser_lookup_only_if:
  assumes "UsersFindOne e \<in> set (new_calls (updateUser i patch) w)"
  shows "\<exists>u. find (\<lambda>u. user_id u = i) (users w) = Some u \<and> upd_email patch = Some e \<and>
             e \<noteq> [] \<and> e \<noteq> email u"
  using assms
  by (auto simp add: updateUser_def new_calls_def io_defs model_defs Let_def
           split: option.splits if_splits)

section \<open>Claims\<close>

subsection \<open>C1: a failed publish after a committed write\<close>

text \<open>
  As stated, C1 says that a command whose write succeeded and whose publish failed still
  succeeds. In \<^verbatim>\<open>createPost\<close> the \<^verbatim>\<open>emit\<close> is awaited inside the
  \<^verbatim>\<open>try\<close> block, so the bus error reaches the \<^verbatim>\<open>catch\<close>: with the bus down the
  post is stored and the command fails with \<^verbatim>\<open>UnexpectedErrorException\<close>.
\<close>

theorem publish_failure_surfaces_counterexample:
  "fault (demo_world bus_down) (PostsCreate new_post_dto) = None \<and>
   posts (snd (createPost new_post_dto (demo_world bus_down))) =
     [first_post, \<lparr>post_id = ''id'', post_doc = new_post_dto\<rparr>] \<and>
   fault (demo_world bus_down)
     (Emit ''post_created'' (PPost (Some \<lparr>post_id = ''id'', post_doc = new_post_dto\<rparr>))) =
     Some ''bus down'' \<and>
   fst (createPost new_post_dto (demo_world bus_down)) =
     Inl (UnexpectedErrorException ''Error creating post'' None)"
  by (simp add: createPost_def io_defs repo_defs demo_defs)

text \<open>
  C1, amended. For each of the three post mutations, when the store write succeeds and
  the publish that follows fails, the failure is logged and the command fails with
  \<^verbatim>\<open>UnexpectedErrorException\<close>; the write stays committed (the collection holds the
  new state) and the bus has accepted no event.
\<close>

theorem publish_failure_fails_command:
  "(fault w (PostsCreate dto) = None \<and>
    fault w (Emit ''post_created''
               (PPost (Some \<lparr>post_id = ids w (issued w), post_doc = dto\<rparr>))) = Some m
    \<longrightarrow> fst (createPost dto w) = Inl (UnexpectedErrorException ''Error creating post'' None) \<and>
        posts (snd (createPost dto w)) = posts w @ [\<lparr>post_id = ids w (issued w), post_doc = dto\<rparr>] \<and>
        sent (snd (createPost dto w)) = sent w \<and>
        logs (snd (createPost dto w)) =
          logs w @ [ConsoleError ''Error creating post:'' (Error m)]) \<and>
   (fault w (PostsFindOne i) = None \<and>
    find (\<lambda>p. post_id p = i) (posts w) = Some p \<and>
    fault w (PostsFindOneAndUpdate i patch) = None \<and>
    fault w (Emit ''post_updated''
               (PPost (Some (p\<lparr>post_doc := set_fields patch (post_doc p)\<rparr>)))) = Some m
    \<longrightarrow> fst (updatePost i patch w) = Inl (UnexpectedErrorException ''Error updating post'' None) \<and>
        posts (snd (updatePost i patch w)) =
          replace_first (\<lambda>p. post_id p = i)
            (p\<lparr>post_doc := set_fields patch (post_doc p)\<rparr>) (posts w) \<and>
        sent (snd (updatePost i patch w)) = sent w \<and>
        logs (snd (updatePost i patch w)) =
          logs w @ [ConsoleError ''Error updating post:'' (Error m)]) \<and>
   (fault w (PostsFindOne i) = None \<and>
    find (\<lambda>p. post_id p = i) (posts w) = Some p \<and>
    fault w (PostsDeleteOne i) = None \<and>
    fault w (Emit ''post_deleted'' (PIdent i)) = Some m
    \<longrightarrow> fst (deletePost i w) =
          Inl (UnexpectedErrorException ''Error deleting post'' (Some (Error m))) \<and>
        posts (snd (deletePost i w)) = remove_first (\<lambda>p. post_id p = i) (posts w) \<and>
        sent (snd (deletePost i w)) = sent w \<and>
        logs (snd (deletePost i w)) =
          logs w @ [LoggerError ''Error deleting post:'' (Error m)])"
proof (intro conjI impI)
  assume a: "fault w (PostsCreate dto) = None \<and>
    fault w (Emit ''post_created''
               (PPost (Some \<lparr>post_id = ids w (issued w), post_doc = dto\<rparr>))) = Some m"
  note c = createPost_publish_fails [OF conjunct1 [OF a] conjunct2 [OF a]]
  show "fst (createPost dto w) = Inl (UnexpectedErrorException ''Error creating post'' None)"
    by (rule c(1))
  show "posts (snd (createPost dto w)) = posts w @ [\<lparr>post_id = ids w (issued w), post_doc = dto\<rparr>]"
    by (rule c(2))
  show "sent (snd (createPost dto w)) = sent w" by (rule c(3))
  show "logs (snd (createPost dto w)) = logs w @ [ConsoleError ''Error creating post:'' (Error m)]"
    by (rule c(4))
next
  assume a: "fault w (PostsFindOne i) = None \<and>
    find (\<lambda>p. post_id p = i) (posts w) = Some p \<and>
    fault w (PostsFindOneAndUpdate i patch) = None \<and>
    fault w (Emit ''post_updated''
               (PPost (Some (p\<lparr>post_doc := set_fields patch (post_doc p)\<rparr>)))) = Some m"
  then have a1: "fault w (PostsFindOne i) = None"
    and a2: "find (\<lambda>p. post_id p = i) (posts w) = Some p"
    and a3: "fault w (PostsFindOneAndUpdate i patch) = None"
    and a4: "fault w (Emit ''post_updated''
               (PPost (Some (p\<lparr>post_doc := set_fields patch (post_doc p)\<rparr>)))) = Some m"
    by simp_all
  note c = updatePost_publish_fails [OF a1 a2 a3 a4]
  show "fst (updatePost i patch w) = Inl (UnexpectedErrorException ''Error updating post'' None)"
    by (rule c(1))
  show "posts (snd (updatePost i patch w)) =
          replace_first (\<lambda>p. post_id p = i)
            (p\<lparr>post_doc := set_fields patch (post_doc p)\<rparr>) (posts w)"
    by (rule c(2))
  show "sent (snd (updatePost i patch w)) = sent w" by (rule c(3))
  show "logs (snd (updatePost i patch w)) =
          logs w @ [ConsoleError ''Error updating post:'' (Error m)]"
    by (rule c(4))
next
  assume a: "fault w (PostsFindOne i) = None \<and>
    find (\<lambda>p. post_id p = i) (posts w) = Some p \<and>
    fault w (PostsDeleteOne i) = None \<and>
    fault w (Emit ''post_deleted'' (PIdent i)) = Some m"
  then have a1: "fault w (PostsFindOne i) = None"
    and a2: "find (\<lambda>p. post_id p = i) (posts w) = Some p"
    and a3: "fault w (PostsDeleteOne i) = None"
    and a4: "fault w (Emit ''post_deleted'' (PIdent i)) = Some m"
    by simp_all
  note c = deletePost_publish_fails [OF a1 a2 a3 a4]
  show "fst (deletePost i w) =
          Inl (UnexpectedErrorException ''Error deleting post'' (Some (Error m)))"
    by (rule c(1))
  show "posts (snd (deletePost i w)) = remove_first (\<lambda>p. post_id p = i) (posts w)"
    by (rule c(2))
  show "sent (snd (deletePost i w)) = sent w" by (rule c(3))
  show "logs (snd (deletePost i w)) =
          logs w @ [LoggerError ''Error deleting post:'' (Error m)]"
    by (rule c(4))
qed

theorem publish_failure_fails_command_witness:
  "fault (demo_world bus_down) (PostsFindOne ''p1'') = None \<and>
   find (\<lambda>p. post_id p = ''p1'') (posts (demo_world bus_down)) = Some first_post \<and>
   fault (demo_world bus_down) (PostsDeleteOne ''p1'') = None \<and>
   fault (demo_world bus_down) (Emit ''post_deleted'' (PIdent ''p1'')) = Some ''bus down'' \<and>
   fst (deletePost ''p1'' (demo_world bus_down)) =
     Inl (UnexpectedErrorException ''Error deleting post'' (Some (Error ''bus down''))) \<and>
   posts (snd (deletePost ''p1'' (demo_world bus_down))) = [] \<and>
   fst (createPost new_post_dto (demo_world bus_down)) =
     Inl (UnexpectedErrorException ''Error creating post'' None) \<and>
   fst (updatePost ''p1'' post_patch (demo_world bus_down)) =
     Inl (UnexpectedErrorException ''Error updating post'' None) \<and>
   posts (snd (updatePost ''p1'' post_patch (demo_world bus_down))) =
     [\<lparr>post_id = ''p1'', post_doc = [(''title'', JString ''y'')]\<rparr>]"
  using publish_failure_fails_command
          [of "demo_world bus_down" new_post_dto "''bus down''" "''p1''" first_post post_patch]
  by (simp add: demo_defs set_fields_def)


subsection \<open>C2: one event after each successful write\<close>

text \<open>
  As stated, C2 covers every entity kind and names \<^verbatim>\<open>user_created\<close>.
  \<^verbatim>\<open>UsersService\<close> has no bus client: a successful \<^verbatim>\<open>createUser\<close> stores the
  user and publishes nothing.
\<close>

theorem user_create_publishes_nothing_counterexample:
  "fst (createUser new_dto (demo_world no_fault)) =
     Inr \<lparr>user_id = ''id'', email = ''b@x.com'', password = ''$2a$10$p'', role = USER,
          isActive = True, isEmailVerified = False, extra = []\<rparr> \<and>
   sent (snd (createUser new_dto (demo_world no_fault))) = [] \<and>
   emit_calls (trace (snd (createUser new_dto (demo_world no_fault)))) = []"
  by (simp add: createUser_def new_user_fields_def SALT_ROUNDS_def io_defs model_defs demo_defs)

text \<open>
  C2, amended. Every successful post mutation makes its store write and then exactly
  one \<^verbatim>\<open>emit\<close>, as its last call: \<^verbatim>\<open>post_created\<close> with the created post,
  \<^verbatim>\<open>post_updated\<close> with the post as the store now holds it, \<^verbatim>\<open>post_deleted\<close>
  with the identifier; the bus accepts that one event. The user mutations make no
  \<^verbatim>\<open>emit\<close> call and publish nothing, whatever their outcome.
\<close>

theorem successful_post_mutation_publishes_once:
  "(fst (createPost dto w) = Inr p \<longrightarrow>
      new_calls (createPost dto) w = [PostsCreate dto, Emit ''post_created'' (PPost (Some p))] \<and>
      sent (snd (createPost dto w)) = sent w @ [(''post_created'', PPost (Some p))] \<and>
      posts (snd (createPost dto w)) = posts w @ [p]) \<and>
   (fst (updatePost i patch w) = Inr r \<longrightarrow>
      new_calls (updatePost i patch) w =
        [PostsFindOne i, PostsFindOneAndUpdate i patch, Emit ''post_updated'' (PPost r)] \<and>
      sent (snd (updatePost i patch w)) = sent w @ [(''post_updated'', PPost r)] \<and>
      r \<noteq> None \<and>
      find (\<lambda>p. post_id p = i) (posts (snd (updatePost i patch w))) = r) \<and>
   (fst (deletePost i w) = Inr u \<longrightarrow>
      new_calls (deletePost i) w =
        [PostsFindOne i, PostsDeleteOne i, Emit ''post_deleted'' (PIdent i)] \<and>
      sent (snd (deletePost i w)) = sent w @ [(''post_deleted'', PIdent i)] \<and>
      posts (snd (deletePost i w)) = remove_first (\<lambda>p. post_id p = i) (posts w)) \<and>
   sent (snd (createUser cdto w)) = sent w \<and>
   emit_calls (new_calls (createUser cdto) w) = [] \<and>
   sent (snd (updateUser j upatch w)) = sent w \<and>
   emit_calls (new_calls (updateUser j upatch) w) = [] \<and>
   sent (snd (deleteUser j w)) = sent w \<and>
   emit_calls (new_calls (deleteUser j) w) = []"
  using createPost_success [of dto w p] updatePost_success [of i patch w r]
    deletePost_success [of i w u]
  by (simp add: users_never_emit users_no_emit_calls)

theorem successful_post_mutation_publishes_once_witness:
  "fst (createPost new_post_dto (demo_world no_fault)) =
     Inr \<lparr>post_id = ''id'', post_doc = new_post_dto\<rparr> \<and>
   sent (snd (createPost new_post_dto (demo_world no_fault))) =
     [(''post_created'', PPost (Some \<lparr>post_id = ''id'', post_doc = new_post_dto\<rparr>))] \<and>
   fst (updatePost ''p1'' post_patch (demo_world no_fault)) =
     Inr (Some \<lparr>post_id = ''p1'', post_doc = post_patch\<rparr>) \<and>
   sent (snd (updatePost ''p1'' post_patch (demo_world no_fault))) =
     [(''post_updated'', PPost (Some \<lparr>post_id = ''p1'', post_doc = post_patch\<rparr>))] \<and>
   fst (deletePost ''p1'' (demo_world no_fault)) = Inr () \<and>
   sent (snd (deletePost ''p1'' (demo_world no_fault))) = [(''post_deleted'', PIdent ''p1'')] \<and>
   posts (snd (deletePost ''p1'' (demo_world no_fault))) = []"
proof -
  have c: "fst (createPost new_post_dto (demo_world no_fault)) =
             Inr \<lparr>post_id = ''id'', post_doc = new_post_dto\<rparr>"
    by (simp add: createPost_def io_defs repo_defs demo_defs)
  have u: "fst (updatePost ''p1'' post_patch (demo_world no_fault)) =
             Inr (Some \<lparr>post_id = ''p1'', post_doc = post_patch\<rparr>)"
    by (simp add: updatePost_def io_defs repo_defs demo_defs set_fields_def)
  have d: "fst (deletePost ''p1'' (demo_world no_fault)) = Inr ()"
    by (simp add: deletePost_def io_defs repo_defs demo_defs)
  show ?thesis
    using c u d
      successful_post_mutation_publishes_once
        [of new_post_dto "demo_world no_fault" "\<lparr>post_id = ''id'', post_doc = new_post_dto\<rparr>"
            "''p1''" post_patch "Some \<lparr>post_id = ''p1'', post_doc = post_patch\<rparr>" "()"]
    by (simp add: demo_world_def first_post_def)
qed

subsection \<open>C3: no event when the write fails\<close>

text \<open>
  C3. When the store write of a create, update or delete command fails, the command
  fails, makes no \<^verbatim>\<open>emit\<close> call, the bus has accepted nothing new, and the
  collection is as it was.
\<close>

theorem store_write_failure_publishes_nothing:
  "(fault w (PostsCreate dto) \<noteq> None \<longrightarrow>
      (\<exists>e. fst (createPost dto w) = Inl e) \<and>
      sent (snd (createPost dto w)) = sent w \<and>
      emit_calls (new_calls (createPost dto) w) = [] \<and>
      posts (snd (createPost dto w)) = posts w) \<and>
   (fault w (PostsFindOneAndUpdate i patch) \<noteq> None \<longrightarrow>
      (\<exists>e. fst (updatePost i patch w) = Inl e) \<and>
      sent (snd (updatePost i patch w)) = sent w \<and>
      emit_calls (new_calls (updatePost i patch) w) = [] \<and>
      posts (snd (updatePost i patch w)) = posts w) \<and>
   (fault w (PostsDeleteOne i) \<noteq> None \<longrightarrow>
      (\<exists>e. fst (deletePost i w) = Inl e) \<and>
      sent (snd (deletePost i w)) = sent w \<and>
      emit_calls (new_calls (deletePost i) w) = [] \<and>
      posts (snd (deletePost i w)) = posts w) \<and>
   (fault w (UsersSave (new_user_fields cdto (bcrypt_hash w (dto_password cdto) SALT_ROUNDS)
                          (ids w (issued w)))) \<noteq> None \<longrightarrow>
      (\<exists>e. fst (createUser cdto w) = Inl e) \<and>
      sent (snd (createUser cdto w)) = sent w \<and>
      emit_calls (new_calls (createUser cdto) w) = [] \<and>
      users (snd (createUser cdto w)) = users w) \<and>
   (fault w (UsersFindByIdAndUpdate j upatch) \<noteq> None \<longrightarrow>
      (\<exists>e. fst (updateUser j upatch w) = Inl e) \<and>
      sent (snd (updateUser j upatch w)) = sent w \<and>
      emit_calls (new_calls (updateUser j upatch) w) = [] \<and>
      users (snd (updateUser j upatch w)) = users w) \<and>
   (fault w (UsersFindByIdAndDelete j) \<noteq> None \<longrightarrow>
      (\<exists>e. fst (deleteUser j w) = Inl e) \<and>
      sent (snd (deleteUser j w)) = sent w \<and>
      emit_calls (new_calls (deleteUser j) w) = [] \<and>
      users (snd (deleteUser j w)) = users w)"
proof (intro conjI impI)
  assume "fault w (PostsCreate dto) \<noteq> None"
  then obtain m where m: "fault w (PostsCreate dto) = Some m" by auto
  note c = createPost_write_fails [OF m]
  show "\<exists>e. fst (createPost dto w) = Inl e" by (simp add: c)
  show "sent (snd (createPost dto w)) = sent w" by (simp add: c)
  show "emit_calls (new_calls (createPost dto) w) = []" by (simp add: c new_calls_def)
  show "posts (snd (createPost dto w)) = posts w" by (simp add: c)
next
  assume "fault w (PostsFindOneAndUpdate i patch) \<noteq> None"
  then obtain m where m: "fault w (PostsFindOneAndUpdate i patch) = Some m" by auto
  note c = updatePost_write_fails [OF m]
  show "\<exists>e. fst (updatePost i patch w) = Inl e" by (rule c(1))
  show "sent (snd (updatePost i patch w)) = sent w" by (rule c(2))
  show "emit_calls (new_calls (updatePost i patch) w) = []" by (rule c(3))
  show "posts (snd (updatePost i patch w)) = posts w" by (rule c(4))
next
  assume "fault w (PostsDeleteOne i) \<noteq> None"
  then obtain m where m: "fault w (PostsDeleteOne i) = Some m" by auto
  note c = deletePost_write_fails [OF m]
  show "\<exists>e. fst (deletePost i w) = Inl e" by (rule c(1))
  show "sent (snd (deletePost i w)) = sent w" by (rule c(2))
  show "emit_calls (new_calls (deletePost i) w) = []" by (rule c(3))
  show "posts (snd (deletePost i w)) = posts w" by (rule c(4))
next
  assume "fault w (UsersSave (new_user_fields cdto (bcrypt_hash w (dto_password cdto) SALT_ROUNDS)
                          (ids w (issued w)))) \<noteq> None"
  then obtain m where m: "fault w (UsersSave (new_user_fields cdto
      (bcrypt_hash w (dto_password cdto) SALT_ROUNDS) (ids w (issued w)))) = Some m" by auto
  note c = createUser_write_fails [OF m]
  show "\<exists>e. fst (createUser cdto w) = Inl e" by (rule c(1))
  show "users (snd (createUser cdto w)) = users w" by (rule c(2))
  show "sent (snd (createUser cdto w)) = sent w" by (rule users_never_emit(1))
  show "emit_calls (new_calls (createUser cdto) w) = []" by (rule users_no_emit_calls(1))
next
  assume "fault w (UsersFindByIdAndUpdate j upatch) \<noteq> None"
  then obtain m where m: "fault w (UsersFindByIdAndUpdate j upatch) = Some m" by auto
  note c = updateUser_write_fails [OF m]
  show "\<exists>e. fst (updateUser j upatch w) = Inl e" by (rule c(1))
  show "users (snd (updateUser j upatch w)) = users w" by (rule c(2))
  show "sent (snd (updateUser j upatch w)) = sent w" by (rule users_never_emit(2))
  show "emit_calls (new_calls (updateUser j upatch) w) = []" by (rule users_no_emit_calls(2))
next
  assume "fault w (UsersFindByIdAndDelete j) \<noteq> None"
  then obtain m where m: "fault w (UsersFindByIdAndDelete j) = Some m" by auto
  note c = deleteUser_write_fails [OF m]
  show "\<exists>e. fst (deleteUser j w) = Inl e" by (simp add: c)
  show "users (snd (deleteUser j w)) = users w" by (simp add: c)
  show "sent (snd (deleteUser j w)) = sent w" by (rule users_never_emit(3))
  show "emit_calls (new_calls (deleteUser j) w) = []" by (rule users_no_emit_calls(3))
qed

theorem store_write_failure_publishes_nothing_witness:
  "fault (demo_world writes_fail) (PostsCreate new_post_dto) \<noteq> None \<and>
   fault (demo_world writes_fail) (PostsFindOneAndUpdate ''p1'' post_patch) \<noteq> None \<and>
   fault (demo_world writes_fail) (PostsDeleteOne ''p1'') \<noteq> None \<and>
   fault (demo_world writes_fail) (UsersSave (new_user_fields new_dto
      (bcrypt_hash (demo_world writes_fail) (dto_password new_dto) SALT_ROUNDS)
      (ids (demo_world writes_fail) (issued (demo_world writes_fail))))) \<noteq> None \<and>
   fault (demo_world writes_fail) (UsersFindByIdAndUpdate ''u1'' no_patch) \<noteq> None \<and>
   fault (demo_world writes_fail) (UsersFindByIdAndDelete ''u1'') \<noteq> None \<and>
   sent (snd (createPost new_post_dto (demo_world writes_fail))) = [] \<and>
   sent (snd (updatePost ''p1'' post_patch (demo_world writes_fail))) = [] \<and>
   sent (snd (deletePost ''p1'' (demo_world writes_fail))) = [] \<and>
   posts (snd (deletePost ''p1'' (demo_world writes_fail))) = [first_post] \<and>
   sent (snd (createUser new_dto (demo_world writes_fail))) = [] \<and>
   sent (snd (updateUser ''u1'' no_patch (demo_world writes_fail))) = [] \<and>
   sent (snd (deleteUser ''u1'' (demo_world writes_fail))) = [] \<and>
   users (snd (deleteUser ''u1'' (demo_world writes_fail))) = [alice, carol]"
  using store_write_failure_publishes_nothing
          [of "demo_world writes_fail" new_post_dto "''p1''" post_patch new_dto "''u1''" no_patch]
  by (simp add: demo_world_def)


subsection \<open>C4: update and delete of an absent identifier\<close>

text \<open>
  As stated, C4 says that no write call is made for an absent identifier.
  \<^verbatim>\<open>deleteUser\<close> has no separate existence check: it calls
  \<^verbatim>\<open>findByIdAndDelete\<close> at once and reads absence off its \<^verbatim>\<open>null\<close> answer.
\<close>

theorem deleteUser_absent_invokes_write_counterexample:
  "find (\<lambda>u. user_id u = ''missing'') (users (demo_world no_fault)) = None \<and>
   fst (deleteUser ''missing'' (demo_world no_fault)) =
     Inl (ResourceNotFoundException ''User not found'') \<and>
   filter is_write (trace (snd (deleteUser ''missing'' (demo_world no_fault)))) =
     [UsersFindByIdAndDelete ''missing'']"
  by (simp add: deleteUser_def io_defs model_defs demo_defs)

text \<open>
  C4, amended. For an identifier absent from the store, with the store answering:
  \<^verbatim>\<open>updateUser\<close>, \<^verbatim>\<open>updatePost\<close> and \<^verbatim>\<open>deletePost\<close> fail with
  \<^verbatim>\<open>ResourceNotFoundException\<close> after the lookup alone, no write call being made;
  \<^verbatim>\<open>deleteUser\<close> makes the one call \<^verbatim>\<open>findByIdAndDelete\<close>, which removes
  nothing, and fails with \<^verbatim>\<open>ResourceNotFoundException\<close>. In all four the world
  changes in its trace and log only.
\<close>

theorem absent_identifier_not_found:
  "(fault w (UsersFindById i) = None \<and> find (\<lambda>u. user_id u = i) (users w) = None \<longrightarrow>
      updateUser i upatch w =
        (Inl (ResourceNotFoundException ''User not found''),
         w\<lparr>trace := trace w @ [UsersFindById i],
           logs := logs w @ [ConsoleError ''Update error details:''
                               (ResourceNotFoundException ''User not found'')]\<rparr>)) \<and>
   (fault w (PostsFindOne i) = None \<and> find (\<lambda>p. post_id p = i) (posts w) = None \<longrightarrow>
      updatePost i patch w =
        (Inl (ResourceNotFoundException ''Post not found''),
         w\<lparr>trace := trace w @ [PostsFindOne i],
           logs := logs w @ [ConsoleError ''Error updating post:''
                               (ResourceNotFoundException ''Post not found'')]\<rparr>) \<and>
      deletePost i w =
        (Inl (ResourceNotFoundException ''Post''),
         w\<lparr>trace := trace w @ [PostsFindOne i],
           logs := logs w @ [LoggerError ''Error deleting post:''
                               (ResourceNotFoundException ''Post'')]\<rparr>)) \<and>
   (fault w (UsersFindByIdAndDelete i) = None \<and>
    find (\<lambda>u. user_id u = i) (users w) = None \<longrightarrow>
      deleteUser i w =
        (Inl (ResourceNotFoundException ''User not found''),
         w\<lparr>trace := trace w @ [UsersFindByIdAndDelete i]\<rparr>))"
  by (simp add: updateUser_absent updatePost_absent deletePost_absent deleteUser_absent)

theorem absent_identifier_not_found_witness:
  "fault (demo_world no_fault) (UsersFindById ''missing'') = None \<and>
   find (\<lambda>u. user_id u = ''missing'') (users (demo_world no_fault)) = None \<and>
   fault (demo_world no_fault) (PostsFindOne ''missing'') = None \<and>
   find (\<lambda>p. post_id p = ''missing'') (posts (demo_world no_fault)) = None \<and>
   fault (demo_world no_fault) (UsersFindByIdAndDelete ''missing'') = None \<and>
   fst (updateUser ''missing'' no_patch (demo_world no_fault)) =
     Inl (ResourceNotFoundException ''User not found'') \<and>
   trace (snd (updateUser ''missing'' no_patch (demo_world no_fault))) =
     [UsersFindById ''missing''] \<and>
   fst (updatePost ''missing'' post_patch (demo_world no_fault)) =
     Inl (ResourceNotFoundException ''Post not found'') \<and>
   trace (snd (updatePost ''missing'' post_patch (demo_world no_fault))) =
     [PostsFindOne ''missing''] \<and>
   fst (deletePost ''missing'' (demo_world no_fault)) =
     Inl (ResourceNotFoundException ''Post'') \<and>
   trace (snd (deletePost ''missing'' (demo_world no_fault))) = [PostsFindOne ''missing''] \<and>
   posts (snd (deletePost ''missing'' (demo_world no_fault))) = [first_post] \<and>
   fst (deleteUser ''missing'' (demo_world no_fault)) =
     Inl (ResourceNotFoundException ''User not found'') \<and>
   users (snd (deleteUser ''missing'' (demo_world no_fault))) = [alice, carol]"
  using absent_identifier_not_found
          [of "demo_world no_fault" "''missing''" no_patch post_patch]
  by (simp add: demo_world_def no_fault_def alice_def carol_def first_post_def)

subsection \<open>C5: uniqueness of the email\<close>

text \<open>
  \<^verbatim>\<open>createUser\<close> looks up every email, the empty one included, and rejects a held
  one before any write (lemma \<open>createUser_email_held\<close>); \<^verbatim>\<open>updateUser\<close> does
  the same for a changed email that is not empty (lemma \<open>updateUser_email_held\<close>).
  C5. The guard of \<^verbatim>\<open>updateUser\<close> starts with \<^verbatim>\<open>updateUserDto.email &&\<close>, which
  the empty string fails, although the patch still sets the email. Create a user with
  the empty email, then update the email of user \<^verbatim>\<open>u1\<close> to the empty string: the
  lookup is skipped, \<^verbatim>\<open>findByIdAndUpdate\<close> is called and the command succeeds,
  leaving two users with the same email, where C5 requires
  \<^verbatim>\<open>InvalidInputException\<close> before any write. \<^verbatim>\<open>createUser\<close> with that email, in
  the same store, is rejected.
\<close>

theorem updateUser_empty_email_skips_uniqueness_check:
  "fst (createUser (new_dto\<lparr>dto_email := ''''\<rparr>) (demo_world no_fault)) =
     Inr \<lparr>user_id = ''id'', email = '''', password = ''$2a$10$p'', role = USER,
          isActive = True, isEmailVerified = False, extra = []\<rparr> \<and>
   fst (updateUser ''u1'' (no_patch\<lparr>upd_email := Some ''''\<rparr>)
          (snd (createUser (new_dto\<lparr>dto_email := ''''\<rparr>) (demo_world no_fault)))) =
     Inr \<lparr>user_id = ''u1'', email = '''', password = ''$2a$10$p'', role = USER,
          isActive = True, isEmailVerified = False, extra = []\<rparr> \<and>
   new_calls (updateUser ''u1'' (no_patch\<lparr>upd_email := Some ''''\<rparr>))
          (snd (createUser (new_dto\<lparr>dto_email := ''''\<rparr>) (demo_world no_fault))) =
     [UsersFindById ''u1'', UsersFindByIdAndUpdate ''u1'' (no_patch\<lparr>upd_email := Some ''''\<rparr>)] \<and>
   map email (users (snd (updateUser ''u1'' (no_patch\<lparr>upd_email := Some ''''\<rparr>)
          (snd (createUser (new_dto\<lparr>dto_email := ''''\<rparr>) (demo_world no_fault)))))) =
     ['''', ''c@x.com'', ''''] \<and>
   fst (createUser (new_dto\<lparr>dto_email := ''''\<rparr>)
          (snd (createUser (new_dto\<lparr>dto_email := ''''\<rparr>) (demo_world no_fault)))) =
     Inl (InvalidInputException ''Email already exists'')"
  by (simp add: createUser_def updateUser_def new_user_fields_def set_user_def set_fields_def
        new_calls_def SALT_ROUNDS_def io_defs model_defs demo_defs)

subsection \<open>C6: stored passwords are hashes\<close>

text \<open>
  \<^verbatim>\<open>createUser\<close> stores what \<^verbatim>\<open>bcrypt.hash(password, SALT_ROUNDS)\<close> returns.
\<close>

lemma createUser_password_hashed:
  assumes "fst (createUser dto w) = Inr u"
  shows "password u = bcrypt_hash w (dto_password dto) SALT_ROUNDS"
  using assms unfolding createUser_Inr_iff by (simp add: new_user_fields_def)

text \<open>
  \<^verbatim>\<open>updateUser\<close> stores the password of the patch as it is given.
\<close>

lemma updateUser_Inr_D:
  assumes "fst (updateUser i patch w) = Inr u'"
  shows "\<exists>u. find (\<lambda>u. user_id u = i) (users w) = Some u \<and> u' = set_user patch u \<and>
             users (snd (updateUser i patch w)) =
               replace_first (\<lambda>u. user_id u = i) u' (users w)"
  using assms
  by (auto simp add: updateUser_def io_defs model_defs split: option.splits if_splits)

lemma updateUser_password_verbatim:
  assumes "fst (updateUser i patch w) = Inr u'" and "upd_password patch = Some pw"
  shows "password u' = pw"
  using updateUser_Inr_D [OF assms(1)] assms(2) by (auto simp add: set_user_def)

text \<open>
  C6. \<^verbatim>\<open>updateUser\<close> passes the patch to \<^verbatim>\<open>$set\<close> as it is: updating the
  password of the existing user \<^verbatim>\<open>u1\<close> to \<^verbatim>\<open>p\<close> stores the plaintext
  \<^verbatim>\<open>p\<close>, where C6 requires a salted hash.
\<close>

theorem updateUser_stores_plaintext_password:
  "fst (updateUser ''u1'' (no_patch\<lparr>upd_password := Some ''p''\<rparr>) (demo_world no_fault)) =
     Inr \<lparr>user_id = ''u1'', email = ''a@x.com'', password = ''p'', role = USER,
          isActive = True, isEmailVerified = False, extra = []\<rparr> \<and>
   map password (users (snd (updateUser ''u1'' (no_patch\<lparr>upd_password := Some ''p''\<rparr>)
                               (demo_world no_fault)))) = [''p'', ''$2a$10$q'']"
  by (simp add: updateUser_def set_user_def set_fields_def io_defs model_defs demo_defs)

subsection \<open>C7: validating credentials\<close>



subsection \<open>C8: reading an absent identifier\<close>

text \<open>
  \<^verbatim>\<open>findUserById\<close> translates the \<^verbatim>\<open>null\<close> of the driver into
  \<^verbatim>\<open>ResourceNotFoundException\<close> (lemma \<open>findUserById_absent\<close>).
  C8. \<^verbatim>\<open>findPostById\<close> returns what the repository's \<^verbatim>\<open>findOne\<close> returns,
  without the check its siblings \<^verbatim>\<open>updatePost\<close> and \<^verbatim>\<open>deletePost\<close> make: for
  an absent identifier it succeeds with \<^verbatim>\<open>null\<close>, where C8 (and the function's own
  documentation) requires \<^verbatim>\<open>ResourceNotFoundException\<close>.
\<close>

theorem findPostById_absent_returns_null:
  "find (\<lambda>p. post_id p = ''missing'') (posts (demo_world no_fault)) = None \<and>
   findPostById ''missing'' (demo_world no_fault) =
     (Inr None, (demo_world no_fault)\<lparr>trace := [PostsFindOne ''missing'']\<rparr>)"
  by (simp add: findPostById_def io_defs repo_defs demo_defs)

subsection \<open>C9: defaults of a created user\<close>

text \<open>
  As stated, C9 says that every supplied role is stored unchanged. The role is defaulted
  with \<^verbatim>\<open>||\<close>, not with \<^verbatim>\<open>??\<close> as the two flags are: a supplied role that is
  falsy, the empty string or \<^verbatim>\<open>0\<close>, is stored as \<^verbatim>\<open>UserRole.USER\<close>.
\<close>

theorem createUser_falsy_role_counterexample:
  "fst (createUser (new_dto\<lparr>dto_role := Some (OtherRole (JString ''''))\<rparr>)
          (demo_world no_fault)) =
     Inr \<lparr>user_id = ''id'', email = ''b@x.com'', password = ''$2a$10$p'', role = USER,
          isActive = True, isEmailVerified = False, extra = []\<rparr> \<and>
   map role (users (snd (createUser (new_dto\<lparr>dto_role := Some (OtherRole (JString ''''))\<rparr>)
          (demo_world no_fault)))) = [USER, USER, USER] \<and>
   fst (createUser (new_dto\<lparr>dto_role := Some (OtherRole (JNumber 0))\<rparr>)
          (demo_world no_fault)) =
     Inr \<lparr>user_id = ''id'', email = ''b@x.com'', password = ''$2a$10$p'', role = USER,
          isActive = True, isEmailVerified = False, extra = []\<rparr>"
  by (simp add: createUser_def new_user_fields_def SALT_ROUNDS_def io_defs model_defs demo_defs)

text \<open>
  C9, amended. The user a successful \<^verbatim>\<open>createUser\<close> returns and stores has role
  \<^verbatim>\<open>USER\<close>, \<^verbatim>\<open>isActive\<close> true and \<^verbatim>\<open>isEmailVerified\<close> false where the DTO
  omits the field; a supplied \<^verbatim>\<open>isActive\<close> or \<^verbatim>\<open>isEmailVerified\<close>, and a
  supplied role that is truthy, are stored unchanged.
\<close>

theorem createUser_defaults:
  "fst (createUser dto w) = Inr u \<Longrightarrow>
     (dto_role dto = None \<longrightarrow> role u = USER) \<and>
     (dto_role dto = Some USER \<longrightarrow> role u = USER) \<and>
     (\<forall>v. dto_role dto = Some (OtherRole v) \<and> js_truthy v \<longrightarrow> role u = OtherRole v) \<and>
     isActive u = (case dto_isActive dto of None \<Rightarrow> True | Some b \<Rightarrow> b) \<and>
     isEmailVerified u = (case dto_isEmailVerified dto of None \<Rightarrow> False | Some b \<Rightarrow> b) \<and>
     users (snd (createUser dto w)) = users w @ [u]"
  using createUser_stored [of dto w u]
  by (auto simp add: createUser_Inr_iff new_user_fields_def split: option.split)

theorem createUser_defaults_witness:
  "fst (createUser new_dto (demo_world no_fault)) =
     Inr \<lparr>user_id = ''id'', email = ''b@x.com'', password = ''$2a$10$p'', role = USER,
          isActive = True, isEmailVerified = False, extra = []\<rparr> \<and>
   map role (users (snd (createUser new_dto (demo_world no_fault)))) = [USER, USER, USER] \<and>
   js_truthy (JString ''admin'') \<and>
   fst (createUser (new_dto\<lparr>dto_role := Some (OtherRole (JString ''admin'')),
                            dto_isActive := Some False, dto_isEmailVerified := Some True\<rparr>)
          (demo_world no_fault)) =
     Inr \<lparr>user_id = ''id'', email = ''b@x.com'', password = ''$2a$10$p'',
          role = OtherRole (JString ''admin''), isActive = False, isEmailVerified = True,
          extra = []\<rparr> \<and>
   map isActive (users (snd (createUser
       (new_dto\<lparr>dto_role := Some (OtherRole (JString ''admin'')), dto_isActive := Some False,
                 dto_isEmailVerified := Some True\<rparr>) (demo_world no_fault)))) =
     [True, True, False]"
proof -
  have a: "fst (createUser new_dto (demo_world no_fault)) =
     Inr \<lparr>user_id = ''id'', email = ''b@x.com'', password = ''$2a$10$p'', role = USER,
          isActive = True, isEmailVerified = False, extra = []\<rparr>"
    by (simp add: createUser_def new_user_fields_def SALT_ROUNDS_def io_defs model_defs demo_defs)
  have b: "fst (createUser (new_dto\<lparr>dto_role := Some (OtherRole (JString ''admin'')),
                 dto_isActive := Some False, dto_isEmailVerified := Some True\<rparr>)
               (demo_world no_fault)) =
     Inr \<lparr>user_id = ''id'', email = ''b@x.com'', password = ''$2a$10$p'',
          role = OtherRole (JString ''admin''), isActive = False, isEmailVerified = True,
          extra = []\<rparr>"
    by (simp add: createUser_def new_user_fields_def SALT_ROUNDS_def io_defs model_defs demo_defs)
  show ?thesis
    using a b createUser_defaults [OF a] createUser_defaults [OF b]
    by (simp add: demo_world_def alice_def carol_def)
qed

subsection \<open>C10: updating a user to its own email\<close>

text \<open>
  C10. With the store answering: an update of an existing user whose patch carries the
  user's own current email makes the two calls \<^verbatim>\<open>findById\<close> and
  \<^verbatim>\<open>findByIdAndUpdate\<close> only, and succeeds with the updated user. Whenever
  \<^verbatim>\<open>updateUser\<close> does look an email up, the target exists and the patch carries
  that email, which differs from the target's current one.
\<close>

theorem update_same_email_skips_uniqueness_check:
  "(fault w (UsersFindById i) = None \<and> find (\<lambda>u. user_id u = i) (users w) = Some u \<and>
    upd_email patch = Some (email u) \<and> fault w (UsersFindByIdAndUpdate i patch) = None \<longrightarrow>
      updateUser i patch w =
        (Inr (set_user patch u),
         w\<lparr>trace := trace w @ [UsersFindById i, UsersFindByIdAndUpdate i patch],
           users := replace_first (\<lambda>u. user_id u = i) (set_user patch u) (users w)\<rparr>)) \<and>
   (UsersFindOne e \<in> set (new_calls (updateUser i patch) w) \<longrightarrow>
      (\<exists>x. find (\<lambda>u. user_id u = i) (users w) = Some x \<and> upd_email patch = Some e \<and>
           e \<noteq> [] \<and> e \<noteq> email x))"
  using updateUser_same_email [of w i u patch] updateUser_lookup_only_if [of e i patch w]
  by blast

theorem update_same_email_skips_uniqueness_check_witness:
  "fault (demo_world no_fault) (UsersFindById ''u1'') = None \<and>
   find (\<lambda>u. user_id u = ''u1'') (users (demo_world no_fault)) = Some alice \<and>
   upd_email (no_patch\<lparr>upd_email := Some ''a@x.com'', upd_isActive := Some False\<rparr>) =
     Some (email alice) \<and>
   fault (demo_world no_fault)
     (UsersFindByIdAndUpdate ''u1''
        (no_patch\<lparr>upd_email := Some ''a@x.com'', upd_isActive := Some False\<rparr>)) = None \<and>
   ''a@x.com'' \<in> email ` set (users (demo_world no_fault)) \<and>
   fst (updateUser ''u1'' (no_patch\<lparr>upd_email := Some ''a@x.com'', upd_isActive := Some False\<rparr>)
          (demo_world no_fault)) = Inr (alice\<lparr>isActive := False\<rparr>) \<and>
   trace (snd (updateUser ''u1''
          (no_patch\<lparr>upd_email := Some ''a@x.com'', upd_isActive := Some False\<rparr>)
          (demo_world no_fault))) =
     [UsersFindById ''u1'',
      UsersFindByIdAndUpdate ''u1''
        (no_patch\<lparr>upd_email := Some ''a@x.com'', upd_isActive := Some False\<rparr>)] \<and>
   users (snd (updateUser ''u1''
          (no_patch\<lparr>upd_email := Some ''a@x.com'', upd_isActive := Some False\<rparr>)
          (demo_world no_fault))) = [alice\<lparr>isActive := False\<rparr>, carol] \<and>
   UsersFindOne ''a@x.com'' \<in>
     set (new_calls (updateUser ''u2'' (no_patch\<lparr>upd_email := Some ''a@x.com''\<rparr>))
            (demo_world no_fault)) \<and>
   find (\<lambda>u. user_id u = ''u2'') (users (demo_world no_fault)) = Some carol \<and>
   ''a@x.com'' \<noteq> email carol"
  using update_same_email_skips_uniqueness_check
          [of "demo_world no_fault" "''u1''" alice
              "no_patch\<lparr>upd_email := Some ''a@x.com'', upd_isActive := Some False\<rparr>"]
        update_same_email_skips_uniqueness_check
          [of "demo_world no_fault" "''u2''" carol
              "no_patch\<lparr>upd_email := Some ''a@x.com''\<rparr>" "''a@x.com''"]
  by (simp add: demo_world_def no_fault_def alice_def carol_def no_patch_def set_user_def
        set_fields_def updateUser_def new_calls_def io_defs model_defs)

end
